theory Spec2Isabelle
  imports Main
begin

section \<open>Python values\<close>

text \<open>
  The configuration values handled by \<^verbatim>\<open>hpcflow/config.py\<close> are what the YAML safe loader
  and \<^verbatim>\<open>json.loads\<close> produce: \<^verbatim>\<open>None\<close>, booleans, integers, strings, lists and
  dictionaries (an ordered association list, as a Python \<^verbatim>\<open>dict\<close> keeps insertion
  order; keys are strings). Two more kinds of object reach the code: \<^verbatim>\<open>pathlib.Path\<close>
  objects (the meta-data \<^verbatim>\<open>config_dir\<close> and \<^verbatim>\<open>config_file_path\<close>, and some run-time
  attributes) and objects with no sequence or mapping behaviour at all (bound methods,
  \<^verbatim>\<open>Schema\<close> objects), which are kept opaque and told apart by a label.
  Floating point numbers are left out.
\<close>

datatype val =
    VNone
  | VBool bool
  | VInt int
  | VStr string
  | VList "val list"
  | VDict "(string \<times> val) list"
  | VPath string
  | VObject string

text \<open>\<^verbatim>\<open>type(v)\<close>, reported by \<^verbatim>\<open>ConfigChangeTypeInvalidError\<close>.\<close>

datatype pytype = NoneType | TBool | TInt | TStr | TList | TDict | TPath | TObject

fun py_type :: "val \<Rightarrow> pytype" where
  "py_type VNone = NoneType"
| "py_type (VBool b) = TBool"
| "py_type (VInt i) = TInt"
| "py_type (VStr s) = TStr"
| "py_type (VList xs) = TList"
| "py_type (VDict d) = TDict"
| "py_type (VPath p) = TPath"
| "py_type (VObject l) = TObject"

text \<open>
  Python's \<^verbatim>\<open>==\<close>: \<^verbatim>\<open>True == 1\<close> and \<^verbatim>\<open>False == 0\<close> hold, lists are compared element
  by element, and two dictionaries are equal when they have the same number of items and
  every key of the first has an equal value in the second, whatever the order.
\<close>

fun py_eq :: "val \<Rightarrow> val \<Rightarrow> bool"
  and py_eq_list :: "val list \<Rightarrow> val list \<Rightarrow> bool"
  and py_eq_items :: "(string \<times> val) list \<Rightarrow> (string \<times> val) list \<Rightarrow> bool"
where
  "py_eq VNone b = (b = VNone)"
| "py_eq (VBool x) b =
     (case b of VBool y \<Rightarrow> x = y | VInt j \<Rightarrow> (if x then 1 else 0) = j | _ \<Rightarrow> False)"
| "py_eq (VInt i) b =
     (case b of VInt j \<Rightarrow> i = j | VBool y \<Rightarrow> i = (if y then 1 else 0) | _ \<Rightarrow> False)"
| "py_eq (VStr s) b = (b = VStr s)"
| "py_eq (VPath p) b = (b = VPath p)"
| "py_eq (VObject l) b = (b = VObject l)"
| "py_eq (VList xs) b = (case b of VList ys \<Rightarrow> py_eq_list xs ys | _ \<Rightarrow> False)"
| "py_eq (VDict d) b =
     (case b of VDict e \<Rightarrow> length d = length e \<and> py_eq_items d e | _ \<Rightarrow> False)"
| "py_eq_list [] ys = (ys = [])"
| "py_eq_list (x # xs) ys =
     (case ys of [] \<Rightarrow> False | y # ys' \<Rightarrow> py_eq x y \<and> py_eq_list xs ys')"
| "py_eq_items [] e = True"
| "py_eq_items ((k, v) # d) e =
     (case map_of e k of None \<Rightarrow> False | Some w \<Rightarrow> py_eq v w \<and> py_eq_items d e)"

subsection \<open>Dictionaries\<close>

text \<open>
  \<^verbatim>\<open>d[k] = v\<close> replaces the value in place when the key is there and adds the item at the
  end otherwise; \<^verbatim>\<open>del d[k]\<close> removes the item (the callers test for the key first);
  \<^verbatim>\<open>d.get(k)\<close> is \<^verbatim>\<open>None\<close> for a missing key.
\<close>

fun dict_setitem :: "'k \<Rightarrow> 'v \<Rightarrow> ('k \<times> 'v) list \<Rightarrow> ('k \<times> 'v) list" where
  "dict_setitem k v [] = [(k, v)]"
| "dict_setitem k v ((k', v') # d) =
     (if k' = k then (k, v) # d else (k', v') # dict_setitem k v d)"

fun dict_delitem :: "'k \<Rightarrow> ('k \<times> 'v) list \<Rightarrow> ('k \<times> 'v) list" where
  "dict_delitem k [] = []"
| "dict_delitem k ((k', v') # d) =
     (if k' = k then dict_delitem k d else (k', v') # dict_delitem k d)"

definition dict_get :: "(string \<times> val) list \<Rightarrow> string \<Rightarrow> val" where
  "dict_get d k = (case map_of d k of None \<Rightarrow> VNone | Some v \<Rightarrow> v)"

text \<open>\<^verbatim>\<open>d[k]\<close> with a function applied in place to the value found; nothing happens for a
  missing key (the callers test for the key first).\<close>

fun dict_modify :: "'k \<Rightarrow> ('v \<Rightarrow> 'v) \<Rightarrow> ('k \<times> 'v) list \<Rightarrow> ('k \<times> 'v) list" where
  "dict_modify k f [] = []"
| "dict_modify k f ((k', v') # d) =
     (if k' = k then (k', f v') # d else (k', v') # dict_modify k f d)"

section \<open>Errors\<close>

text \<open>
  The exception classes \<^verbatim>\<open>config.py\<close> imports from \<^verbatim>\<open>hpcflow.errors\<close>, one constructor
  for each imported name, with the arguments they are raised with, and the built-in
  exceptions the code lets escape.
\<close>

datatype error =
    ConfigUnknownItemError string
  | ConfigChangeInvalidError string
  | ConfigChangeInvalidJSONError string string
  | ConfigChangeValidationError string error
  | ConfigChangeFileUpdateError string error
  | ConfigChangeTypeInvalidError string pytype
  | ConfigChangePopIndexError string nat int
  | ConfigValidationError string
  | ConfigFileValidationError string
  | ConfigFileInvocationIncompatibleError
  | KeyError val
  | IndexError
  | AttributeError string
  | TypeError
  | UnboundLocalError string
  | FileNotFoundError string
  | FileExistsError string
  | OSError string

datatype warning =
    AlreadySet string val
  | AlreadyUnset string

section \<open>The configuration document\<close>

type_synonym cfg = "(string \<times> val) list"

record InvocationMatcher =
  environment_setup :: val
  match :: cfg

record ConfigProfile =
  invocation :: InvocationMatcher
  config :: cfg

record ConfigDocument =
  machine :: val
  defaults :: val
  configs :: "(string \<times> ConfigProfile) list"

text \<open>
  A \<^verbatim>\<open>valida\<close> schema: its rules, of which the code reads the path and the name and
  arguments of the condition's callable, and its \<^verbatim>\<open>validate\<close> method, a parameter here
  (the library is not part of the repository); the result object gives \<^verbatim>\<open>is_valid\<close> and
  \<^verbatim>\<open>get_failures_string()\<close>.
\<close>

record Rule =
  path :: "string list"
  callable_name :: string
  callable_args :: "string list"

record ValidatedData =
  is_valid :: bool
  get_failures_string :: string

record 'a Schema =
  rules :: "Rule list"
  validate :: "'a \<Rightarrow> ValidatedData"

section \<open>The loader and its world\<close>

type_synonym fspath = string

record meta =
  config_dir :: fspath
  config_file_path :: fspath
  config_file_contents :: string
  config_invocation_key :: string
  config_schemas :: "cfg Schema list"

text \<open>The attributes of a \<^verbatim>\<open>ConfigLoader\<close> instance (the source's names start with an
  underscore).\<close>

record ConfigLoader =
  configurable_keys :: "string list"
  cfg_file_dat_rt :: ConfigDocument
  meta_data :: meta
  configured_data :: cfg

text \<open>
  What the loader acts on outside itself: the directories and the YAML files on disk (a
  file is identified with the document it holds), whether writing fails and with which
  exception, the environment variables, the warnings emitted so far, and what the code
  takes from outside \<^verbatim>\<open>config.py\<close>, as parameters: \<^verbatim>\<open>json.loads\<close> (\<open>None\<close> for a
  \<^verbatim>\<open>JSONDecodeError\<close>), the \<^verbatim>\<open>pathlib\<close> functions, the text of a document,
  \<^verbatim>\<open>socket.gethostname\<close>, the attributes of \<^verbatim>\<open>RUN_TIME_INFO\<close>, and the two schemas
  \<^verbatim>\<open>get_schema\<close> loads (\<^verbatim>\<open>config_schema.yaml\<close> and \<^verbatim>\<open>config_file_schema.yaml\<close>).
\<close>

record world =
  dirs :: "fspath set"
  files :: "fspath \<rightharpoonup> ConfigDocument"
  write_error :: "error option"
  environ :: "string \<rightharpoonup> string"
  warned :: "warning list"
  json_loads :: "string \<Rightarrow> val option"
  expanduser :: "fspath \<Rightarrow> fspath"
  absolute :: "fspath \<Rightarrow> fspath"
  parent :: "fspath \<Rightarrow> fspath"
  joinpath :: "fspath \<Rightarrow> string \<Rightarrow> fspath"
  file_text :: "ConfigDocument \<Rightarrow> string"
  gethostname :: string
  RUN_TIME_INFO :: "string \<rightharpoonup> val"
  config_schema_yaml :: "cfg Schema"
  config_file_schema_yaml :: "ConfigDocument Schema"

type_synonym state = "ConfigLoader \<times> world"
type_synonym 'a outcome = "(error + 'a) \<times> state"

section \<open>Reading\<close>

definition meta_keys :: "string list" where
  "meta_keys = [''config_dir'', ''config_file_path'', ''config_file_contents'',
     ''config_invocation_key'', ''config_schemas'']"

definition meta_getitem :: "meta \<Rightarrow> string \<Rightarrow> val" where
  "meta_getitem m name =
     (if name = ''config_dir'' then VPath (config_dir m)
      else if name = ''config_file_path'' then VPath (config_file_path m)
      else if name = ''config_file_contents'' then VStr (config_file_contents m)
      else if name = ''config_invocation_key'' then VStr (config_invocation_key m)
      else VList (map (\<lambda>s. VObject ''Schema'') (config_schemas m)))"

text \<open>\<^verbatim>\<open>ConfigLoader.__getattr__\<close>, the hook Python calls when normal attribute lookup
  fails.\<close>

definition dunder_getattr :: "ConfigLoader \<Rightarrow> string \<Rightarrow> error + val" where
  "dunder_getattr L name =
     (if name \<in> set meta_keys then Inr (meta_getitem (meta_data L) name)
      else if name \<in> set (configurable_keys L) then Inr (dict_get (configured_data L) name)
      else Inl (ConfigUnknownItemError name))"

text \<open>
  The names normal attribute lookup finds on a \<^verbatim>\<open>ConfigLoader\<close> instance: the four
  instance attributes set by \<^verbatim>\<open>__init__\<close>, the names bound in the class body, and the
  attributes an instance has from its class object and from \<^verbatim>\<open>object\<close>. The last list
  depends on the interpreter; it is the union over the CPython 3 versions, and the
  results below rely only on names outside the three lists or bound in the class body.
\<close>

definition instance_attributes :: "string list" where
  "instance_attributes =
     [''_configurable_keys'', ''_cfg_file_dat_rt'', ''_meta_data'', ''_configured_data'']"

definition class_attributes :: "string list" where
  "class_attributes =
     [''CONFIG_DIR_ENV_VAR'', ''CONFIG_DIR_DEFAULT'', ''DEFAULT_CONFIG'', ''__init__'',
      ''__dir__'', ''__str__'', ''__getattr__'', ''_all_keys'', ''_cfg_inv_key'',
      ''_validate_configured_data'', ''_get_main_config_file'', ''_resolve_config_dir'',
      ''_update_config_file'', ''_modify_if_valid'', ''_set_value'', ''_unset_value'',
      ''_prepare_modify'', ''to_string'', ''get_configurable'', ''get'', ''set_value'',
      ''unset_value'', ''append_value'', ''prepend_value'', ''pop_value'']"

definition object_attributes :: "string list" where
  "object_attributes =
     [''__class__'', ''__delattr__'', ''__dict__'', ''__doc__'', ''__eq__'', ''__format__'',
      ''__ge__'', ''__getattribute__'', ''__getstate__'', ''__gt__'', ''__hash__'',
      ''__init_subclass__'', ''__le__'', ''__lt__'', ''__module__'', ''__ne__'',
      ''__new__'', ''__reduce__'', ''__reduce_ex__'', ''__repr__'', ''__setattr__'',
      ''__sizeof__'', ''__subclasshook__'', ''__weakref__'', ''__annotations__'',
      ''__firstlineno__'', ''__static_attributes__'']"

definition loader_attributes :: "string list" where
  "loader_attributes = instance_attributes @ class_attributes @ object_attributes"

text \<open>
  \<^verbatim>\<open>ConfigLoader.get\<close> is \<^verbatim>\<open>getattr(self, name)\<close>: normal lookup first, which returns the
  attribute itself (kept opaque, labelled by its name), and \<^verbatim>\<open>__getattr__\<close> only for a
  name normal lookup does not find.
\<close>

definition get :: "ConfigLoader \<Rightarrow> string \<Rightarrow> error + val" where
  "get L name =
     (if name \<in> set loader_attributes then Inr (VObject name) else dunder_getattr L name)"

definition get_configurable :: "ConfigLoader \<Rightarrow> string list" where
  "get_configurable L = configurable_keys L"

section \<open>Validation and persistence\<close>

text \<open>\<^verbatim>\<open>_validate_configured_data\<close>: the first schema that rejects the data raises
  \<^verbatim>\<open>ConfigValidationError\<close> with its failure text.\<close>

fun validate_schemas :: "cfg Schema list \<Rightarrow> cfg \<Rightarrow> error + unit" where
  "validate_schemas [] data = Inr ()"
| "validate_schemas (cfg_schema # rest) data =
     (let cfg_validated = validate cfg_schema data in
      if \<not> is_valid cfg_validated
      then Inl (ConfigValidationError (get_failures_string cfg_validated))
      else validate_schemas rest data)"

definition validate_configured_data :: "ConfigLoader \<Rightarrow> cfg \<Rightarrow> error + unit" where
  "validate_configured_data L data = validate_schemas (config_schemas (meta_data L)) data"

text \<open>
  \<^verbatim>\<open>_update_config_file\<close> dumps the round-trip document to a temporary file and renames
  it over the configuration file. The temporary file is not kept in the model: the
  update either raises (the configuration file is left as it was) or replaces the
  configuration file by the round-trip document.
\<close>

definition update_config_file :: "state \<Rightarrow> (error + unit) \<times> world" where
  "update_config_file s =
     (case s of (L, w) \<Rightarrow>
       (case write_error w of
          Some err \<Rightarrow> (Inl err, w)
        | None \<Rightarrow>
            (Inr (),
             w\<lparr>files :=
                 (files w)(absolute w (config_file_path (meta_data L)) \<mapsto>
                   cfg_file_dat_rt L)\<rparr>)))"

text \<open>\<^verbatim>\<open>self._cfg_file_dat_rt["configs"][self._cfg_inv_key]["config"]\<close>, which raises
  \<^verbatim>\<open>KeyError\<close> when the profile is not in the document.\<close>

definition cfg_inv_key :: "ConfigLoader \<Rightarrow> string" where
  "cfg_inv_key L = config_invocation_key (meta_data L)"

definition rt_config :: "ConfigLoader \<Rightarrow> cfg option" where
  "rt_config L = map_option config (map_of (configs (cfg_file_dat_rt L)) (cfg_inv_key L))"

text \<open>An in-place change \<open>f\<close> to that dictionary.\<close>

definition rt_modify :: "(cfg \<Rightarrow> cfg) \<Rightarrow> ConfigLoader \<Rightarrow> ConfigDocument" where
  "rt_modify f L =
     (cfg_file_dat_rt L)\<lparr>configs :=
        dict_modify (cfg_inv_key L) (\<lambda>p. p\<lparr>config := f (config p)\<rparr>)
          (configs (cfg_file_dat_rt L))\<rparr>"

section \<open>Modification\<close>

text \<open>
  \<^verbatim>\<open>_modify_if_valid\<close>. \<^verbatim>\<open>old_value = dat_copy[name]\<close> raises \<^verbatim>\<open>KeyError\<close> for a name
  the configured data does not hold. The candidate is validated, then the round-trip
  document and the configured data are changed, then the file is written; when writing
  raises, \<^verbatim>\<open>old_value\<close> is stored back under \<^verbatim>\<open>name\<close> in both and
  \<^verbatim>\<open>ConfigChangeFileUpdateError\<close> is raised. Returns \<^verbatim>\<open>True\<close> for an unset and the new
  value otherwise.
\<close>

definition modify_if_valid :: "state \<Rightarrow> string \<Rightarrow> val \<Rightarrow> bool \<Rightarrow> val outcome" where
  "modify_if_valid s name new_value is_unset =
     (case s of (L, w) \<Rightarrow>
       (case map_of (configured_data L) name of
          None \<Rightarrow> (Inl (KeyError (VStr name)), s)
        | Some old_value \<Rightarrow>
            (let dat_copy =
                   (if is_unset then dict_delitem name (configured_data L)
                    else dict_setitem name new_value (configured_data L))
             in case validate_configured_data L dat_copy of
                  Inl err \<Rightarrow> (Inl (ConfigChangeValidationError name err), s)
                | Inr u \<Rightarrow>
                    (case rt_config L of
                       None \<Rightarrow> (Inl (KeyError (VStr (cfg_inv_key L))), s)
                     | Some rt_cfg \<Rightarrow>
                         if is_unset \<and> map_of rt_cfg name = None
                         then (Inl (KeyError (VStr name)), s)
                         else
                           (let change =
                                  (if is_unset then dict_delitem name
                                   else dict_setitem name new_value);
                                L1 = L\<lparr>cfg_file_dat_rt := rt_modify change L,
                                        configured_data := change (configured_data L)\<rparr>
                            in case update_config_file (L1, w) of
                                 (Inl err, w1) \<Rightarrow>
                                   (Inl (ConfigChangeFileUpdateError name err),
                                    L1\<lparr>cfg_file_dat_rt :=
                                          rt_modify (dict_setitem name old_value) L1,
                                        configured_data :=
                                          dict_setitem name old_value (configured_data L1)\<rparr>,
                                    w1)
                               | (Inr u1, w1) \<Rightarrow>
                                   (Inr (if is_unset then VBool True else new_value),
                                    L1, w1))))))"

text \<open>\<^verbatim>\<open>_set_value\<close>: a warning and \<^verbatim>\<open>None\<close> when the old value \<^verbatim>\<open>==\<close> the new one.\<close>

definition set_value_from :: "state \<Rightarrow> string \<Rightarrow> val \<Rightarrow> val \<Rightarrow> val outcome" where
  "set_value_from s name old_value new_value =
     (case s of (L, w) \<Rightarrow>
       if py_eq old_value new_value
       then (Inr VNone, L, w\<lparr>warned := warned w @ [AlreadySet name new_value]\<rparr>)
       else modify_if_valid s name new_value False)"

text \<open>\<^verbatim>\<open>_unset_value\<close>: a warning and \<^verbatim>\<open>None\<close> when the name is not in the configured
  data.\<close>

definition unset_value_from :: "state \<Rightarrow> string \<Rightarrow> val outcome" where
  "unset_value_from s name =
     (case s of (L, w) \<Rightarrow>
       if map_of (configured_data L) name = None
       then (Inr VNone, L, w\<lparr>warned := warned w @ [AlreadyUnset name]\<rparr>)
       else modify_if_valid s name VNone True)"

text \<open>
  \<^verbatim>\<open>_prepare_modify\<close>: the allow-list test, the JSON decoding (\<^verbatim>\<open>json.loads\<close> raises
  \<^verbatim>\<open>TypeError\<close>, which is not caught, for an argument that is not a string) and a copy of
  the current value, read with \<^verbatim>\<open>get\<close>.
\<close>

definition prepare_modify :: "state \<Rightarrow> string \<Rightarrow> val \<Rightarrow> bool \<Rightarrow> error + (val \<times> val)" where
  "prepare_modify s name new_value is_json =
     (case s of (L, w) \<Rightarrow>
       if name \<notin> set (configurable_keys L) then Inl (ConfigChangeInvalidError name)
       else
         (case (if is_json
                then (case new_value of
                        VStr json_str \<Rightarrow>
                          (case json_loads w json_str of
                             None \<Rightarrow> Inl (ConfigChangeInvalidJSONError name json_str)
                           | Some v \<Rightarrow> Inr v)
                      | _ \<Rightarrow> Inl TypeError)
                else Inr new_value) of
            Inl err \<Rightarrow> Inl err
          | Inr new_value' \<Rightarrow>
              (case get L name of
                 Inl err \<Rightarrow> Inl err
               | Inr old_value \<Rightarrow> Inr (old_value, new_value'))))"

section \<open>The public operations\<close>

definition set_value :: "state \<Rightarrow> string \<Rightarrow> val \<Rightarrow> bool \<Rightarrow> val outcome" where
  "set_value s name v is_json =
     (case prepare_modify s name v is_json of
        Inl err \<Rightarrow> (Inl err, s)
      | Inr (old_value, new_value) \<Rightarrow> set_value_from s name old_value new_value)"

definition unset_value :: "state \<Rightarrow> string \<Rightarrow> val outcome" where
  "unset_value s name =
     (case prepare_modify s name VNone False of
        Inl err \<Rightarrow> (Inl err, s)
      | Inr u \<Rightarrow> unset_value_from s name)"

text \<open>\<^verbatim>\<open>old_value + [new_value]\<close> and \<^verbatim>\<open>[new_value] + old_value\<close>: only a list can be
  concatenated with a list, anything else raises \<^verbatim>\<open>TypeError\<close>.\<close>

definition list_append :: "val \<Rightarrow> val \<Rightarrow> error + val" where
  "list_append old_value new_value =
     (case old_value of VList xs \<Rightarrow> Inr (VList (xs @ [new_value])) | _ \<Rightarrow> Inl TypeError)"

definition list_prepend :: "val \<Rightarrow> val \<Rightarrow> error + val" where
  "list_prepend new_value old_value =
     (case old_value of VList xs \<Rightarrow> Inr (VList ([new_value] @ xs)) | _ \<Rightarrow> Inl TypeError)"

definition append_value :: "state \<Rightarrow> string \<Rightarrow> val \<Rightarrow> bool \<Rightarrow> val outcome" where
  "append_value s name v is_json =
     (case prepare_modify s name v is_json of
        Inl err \<Rightarrow> (Inl err, s)
      | Inr (old_value, new_value) \<Rightarrow>
          (case list_append old_value new_value of
             Inl err \<Rightarrow> (Inl (ConfigChangeTypeInvalidError name (py_type old_value)), s)
           | Inr new_value' \<Rightarrow> set_value_from s name old_value new_value'))"

definition prepend_value :: "state \<Rightarrow> string \<Rightarrow> val \<Rightarrow> bool \<Rightarrow> val outcome" where
  "prepend_value s name v is_json =
     (case prepare_modify s name v is_json of
        Inl err \<Rightarrow> (Inl err, s)
      | Inr (old_value, new_value) \<Rightarrow>
          (case list_prepend new_value old_value of
             Inl err \<Rightarrow> (Inl (ConfigChangeTypeInvalidError name (py_type old_value)), s)
           | Inr new_value' \<Rightarrow> set_value_from s name old_value new_value'))"

text \<open>
  \<^verbatim>\<open>new_value = copy.deepcopy(old_value); new_value.pop(index)\<close>. A list pops the element
  at \<^verbatim>\<open>index\<close> (counted from the end when negative) or raises \<^verbatim>\<open>IndexError\<close>; a
  dictionary has a \<^verbatim>\<open>pop\<close> method too, which raises \<^verbatim>\<open>KeyError\<close> for a key it does not
  hold (an integer is never one of the string keys); any other value has no \<^verbatim>\<open>pop\<close>
  and raises \<^verbatim>\<open>AttributeError\<close>.
\<close>

definition py_pop :: "val \<Rightarrow> int \<Rightarrow> error + val" where
  "py_pop old_value index =
     (case old_value of
        VList xs \<Rightarrow>
          (let n = int (length xs); j = (if index < 0 then n + index else index)
           in if 0 \<le> j \<and> j < n then Inr (VList (take (nat j) xs @ drop (Suc (nat j)) xs))
              else Inl IndexError)
      | VDict d \<Rightarrow> Inl (KeyError (VInt index))
      | _ \<Rightarrow> Inl (AttributeError ''pop''))"

text \<open>\<^verbatim>\<open>len(old_value)\<close>, evaluated in the \<^verbatim>\<open>IndexError\<close> handler only.\<close>

definition py_len :: "val \<Rightarrow> nat" where
  "py_len v = (case v of VList xs \<Rightarrow> length xs | VDict d \<Rightarrow> length d | VStr s \<Rightarrow> length s | _ \<Rightarrow> 0)"

definition pop_value :: "state \<Rightarrow> string \<Rightarrow> int \<Rightarrow> val outcome" where
  "pop_value s name index =
     (case prepare_modify s name VNone False of
        Inl err \<Rightarrow> (Inl err, s)
      | Inr (old_value, u) \<Rightarrow>
          (case py_pop old_value index of
             Inl (AttributeError a) \<Rightarrow>
               (Inl (ConfigChangeTypeInvalidError name (py_type old_value)), s)
           | Inl IndexError \<Rightarrow>
               (Inl (ConfigChangePopIndexError name (py_len old_value) index), s)
           | Inl err \<Rightarrow> (Inl err, s)
           | Inr new_value \<Rightarrow> set_value_from s name old_value new_value))"

text \<open>The five mutators, one call each.\<close>

datatype mutation =
    SetValue val bool
  | UnsetValue
  | AppendValue val bool
  | PrependValue val bool
  | PopValue int

fun mutate :: "state \<Rightarrow> string \<Rightarrow> mutation \<Rightarrow> val outcome" where
  "mutate s name (SetValue v is_json) = set_value s name v is_json"
| "mutate s name UnsetValue = unset_value s name"
| "mutate s name (AppendValue v is_json) = append_value s name v is_json"
| "mutate s name (PrependValue v is_json) = prepend_value s name v is_json"
| "mutate s name (PopValue index) = pop_value s name index"

section \<open>Loading\<close>

definition CONFIG_DIR_ENV_VAR :: string where
  "CONFIG_DIR_ENV_VAR = ''HPCFLOW_CONFIG_DIR''"

definition CONFIG_DIR_DEFAULT :: string where
  "CONFIG_DIR_DEFAULT = ''~/.hpcflow''"

definition DEFAULT_CONFIG :: "world \<Rightarrow> ConfigDocument" where
  "DEFAULT_CONFIG w =
     \<lparr>machine = VStr (gethostname w),
      defaults = VDict [],
      configs =
        [(''default'',
          \<lparr>invocation = \<lparr>environment_setup = VNone, match = []\<rparr>,
           config =
             [(''log_directory'', VStr ''logs''),
              (''environment_sources'', VList []),
              (''task_schema_sources'', VList [])]\<rparr>)]\<rparr>"

text \<open>Python's truth value of an object, for \<^verbatim>\<open>if not config_dir\<close>.\<close>

fun py_truthy :: "val \<Rightarrow> bool" where
  "py_truthy VNone = False"
| "py_truthy (VBool b) = b"
| "py_truthy (VInt i) = (i \<noteq> 0)"
| "py_truthy (VStr s) = (s \<noteq> [])"
| "py_truthy (VList xs) = (xs \<noteq> [])"
| "py_truthy (VDict d) = (d \<noteq> [])"
| "py_truthy (VPath p) = True"
| "py_truthy (VObject l) = True"

text \<open>\<^verbatim>\<open>Path(config_dir)\<close> takes a string or a path and raises \<^verbatim>\<open>TypeError\<close> otherwise.\<close>

fun Path :: "val \<Rightarrow> error + fspath" where
  "Path (VStr s) = Inr s"
| "Path (VPath p) = Inr p"
| "Path v = Inl TypeError"

text \<open>
  The file system: a path names what its absolute form names. \<^verbatim>\<open>Path.mkdir()\<close> with no
  argument raises \<^verbatim>\<open>FileExistsError\<close> when the path exists and \<^verbatim>\<open>FileNotFoundError\<close>
  when its parent is not a directory, and creates that one directory otherwise.
\<close>

definition is_dir :: "world \<Rightarrow> fspath \<Rightarrow> bool" where
  "is_dir w p = (absolute w p \<in> dirs w)"

definition is_file :: "world \<Rightarrow> fspath \<Rightarrow> bool" where
  "is_file w p = (files w (absolute w p) \<noteq> None)"

definition mkdir :: "world \<Rightarrow> fspath \<Rightarrow> error + world" where
  "mkdir w p =
     (if is_dir w p \<or> is_file w p then Inl (FileExistsError p)
      else if parent w (absolute w p) \<notin> dirs w then Inl (FileNotFoundError p)
      else (case write_error w of
              Some err \<Rightarrow> Inl err
            | None \<Rightarrow> Inr (w\<lparr>dirs := insert (absolute w p) (dirs w)\<rparr>)))"

text \<open>\<^verbatim>\<open>ConfigLoader._resolve_config_dir\<close>, with \<open>dir_arg\<close> for the argument
  \<^verbatim>\<open>config_dir\<close>.\<close>

definition resolve_config_dir :: "world \<Rightarrow> val \<Rightarrow> (error + fspath) \<times> world" where
  "resolve_config_dir w dir_arg =
     (case (if \<not> py_truthy dir_arg
            then Inr (expanduser w
                       (case environ w CONFIG_DIR_ENV_VAR of
                          None \<Rightarrow> CONFIG_DIR_DEFAULT
                        | Some d \<Rightarrow> d))
            else Path dir_arg) of
        Inl err \<Rightarrow> (Inl err, w)
      | Inr cfg_dir \<Rightarrow>
          if \<not> is_dir w cfg_dir
          then (case mkdir w cfg_dir of
                  Inl err \<Rightarrow> (Inl err, w)
                | Inr w' \<Rightarrow> (Inr (absolute w cfg_dir), w'))
          else (Inr (absolute w cfg_dir), w))"

text \<open>
  \<^verbatim>\<open>ConfigLoader._get_main_config_file\<close>: \<^verbatim>\<open>config.yaml\<close>, else \<^verbatim>\<open>config.yml\<close>, else a
  new \<^verbatim>\<open>config.yml\<close> with the default configuration (opening it for writing raises
  when the directory is missing or the disk refuses); the file is then read twice (the
  safe and the round-trip load give the same document here) together with its text.
  Files that are not well-formed YAML documents of this shape are outside the model.
\<close>

definition get_main_config_file ::
  "world \<Rightarrow> fspath \<Rightarrow>
     (error + (ConfigDocument \<times> ConfigDocument \<times> fspath \<times> string)) \<times> world" where
  "get_main_config_file w cfg_dir =
     (let cfg_file_path0 = joinpath w cfg_dir ''config.yaml'';
          cfg_file_path =
            (if \<not> is_file w cfg_file_path0 then joinpath w cfg_dir ''config.yml''
             else cfg_file_path0);
          written =
            (if \<not> is_file w cfg_file_path
             then (if \<not> is_dir w cfg_dir then Inl (FileNotFoundError cfg_file_path)
                   else (case write_error w of
                           Some err \<Rightarrow> Inl err
                         | None \<Rightarrow>
                             Inr (w\<lparr>files :=
                                    (files w)(absolute w cfg_file_path \<mapsto>
                                      DEFAULT_CONFIG w)\<rparr>)))
             else Inr w)
      in case written of
           Inl err \<Rightarrow> (Inl err, w)
         | Inr w' \<Rightarrow>
             (case files w' (absolute w' cfg_file_path) of
                None \<Rightarrow> (Inl (FileNotFoundError cfg_file_path), w')
              | Some d \<Rightarrow> (Inr (d, d, cfg_file_path, file_text w' d), w')))"

text \<open>
  The selection loop of \<^verbatim>\<open>__init__\<close>. The inner loop gives \<^verbatim>\<open>is_match\<close>;
  \<^verbatim>\<open>getattr(RUN_TIME_INFO, match_k)\<close> raises \<^verbatim>\<open>AttributeError\<close> for an attribute the
  run-time information does not have. The outer loop carries \<^verbatim>\<open>is_match\<close>, which is
  not bound (\<open>None\<close>) before the first iteration, and stops at the first match.
\<close>

fun match_items :: "(string \<rightharpoonup> val) \<Rightarrow> cfg \<Rightarrow> error + bool" where
  "match_items rti [] = Inr True"
| "match_items rti ((match_k, match_v) # rest) =
     (case rti match_k of
        None \<Rightarrow> Inl (AttributeError match_k)
      | Some a \<Rightarrow> if \<not> py_eq a match_v then Inr False else match_items rti rest)"

fun select_loop ::
  "(string \<rightharpoonup> val) \<Rightarrow> (string \<times> ConfigProfile) list \<Rightarrow> bool option \<Rightarrow>
     error + ((string \<times> ConfigProfile) option \<times> bool option)" where
  "select_loop rti [] is_match = Inr (None, is_match)"
| "select_loop rti ((c_name_i, c_dat_i) # rest) is_match =
     (case match_items rti (match (invocation c_dat_i)) of
        Inl err \<Rightarrow> Inl err
      | Inr m \<Rightarrow>
          if m then Inr (Some (c_name_i, c_dat_i), Some True)
          else select_loop rti rest (Some False))"

definition select_invocation ::
  "(string \<rightharpoonup> val) \<Rightarrow> (string \<times> ConfigProfile) list \<Rightarrow> error + (string \<times> ConfigProfile)"
  where
  "select_invocation rti cfgs =
     (case select_loop rti cfgs None of
        Inl err \<Rightarrow> Inl err
      | Inr (cfg_inv, is_match) \<Rightarrow>
          (case is_match of
             None \<Rightarrow> Inl (UnboundLocalError ''is_match'')
           | Some m \<Rightarrow>
               if \<not> m then Inl ConfigFileInvocationIncompatibleError
               else (case cfg_inv of None \<Rightarrow> Inl TypeError | Some kd \<Rightarrow> Inr kd)))"

text \<open>The allowed keys of the schemas, in \<^verbatim>\<open>__init__\<close>.\<close>

definition cfg_keys_of :: "cfg Schema list \<Rightarrow> string list" where
  "cfg_keys_of cfg_schemas =
     concat (map (\<lambda>cfg_schema.
       concat (map (\<lambda>rule.
         if path rule = [] \<and> callable_name rule = ''allowed_keys''
         then callable_args rule else []) (rules cfg_schema))) cfg_schemas)"

text \<open>\<^verbatim>\<open>ConfigLoader.__init__\<close>; an exception leaves no loader, and the directory or the
  file created before it stay.\<close>

definition init :: "world \<Rightarrow> cfg Schema option \<Rightarrow> val \<Rightarrow> (error + ConfigLoader) \<times> world" where
  "init w config_schema dir_arg =
     (let cfg_schemas =
            [config_schema_yaml w] @ (case config_schema of None \<Rightarrow> [] | Some sch \<Rightarrow> [sch]);
          cfg_keys = cfg_keys_of cfg_schemas
      in case resolve_config_dir w dir_arg of
           (Inl err, w1) \<Rightarrow> (Inl err, w1)
         | (Inr cfg_dir, w1) \<Rightarrow>
             (case get_main_config_file w1 cfg_dir of
                (Inl err, w2) \<Rightarrow> (Inl err, w2)
              | (Inr (cfg_file_dat, cfg_file_dat_rt', cfg_file_path, cfg_file_contents), w2) \<Rightarrow>
                  (let file_validated = validate (config_file_schema_yaml w2) cfg_file_dat
                   in if \<not> is_valid file_validated
                      then (Inl (ConfigFileValidationError (get_failures_string file_validated)),
                            w2)
                      else
                        (case select_invocation (RUN_TIME_INFO w2) (configs cfg_file_dat) of
                           Inl err \<Rightarrow> (Inl err, w2)
                         | Inr (c_inv_key, cfg_inv_data) \<Rightarrow>
                             (let L = \<lparr>configurable_keys = cfg_keys,
                                       cfg_file_dat_rt = cfg_file_dat_rt',
                                       meta_data =
                                         \<lparr>config_dir = cfg_dir,
                                          config_file_path = cfg_file_path,
                                          config_file_contents = cfg_file_contents,
                                          config_invocation_key = c_inv_key,
                                          config_schemas = cfg_schemas\<rparr>,
                                       configured_data = config cfg_inv_data\<rparr>
                              in case validate_configured_data L (configured_data L) of
                                   Inl err \<Rightarrow> (Inl err, w2)
                                 | Inr u \<Rightarrow> (Inr L, w2))))))"

section \<open>Consistency of the loader with the file\<close>

text \<open>The \<^verbatim>\<open>config\<close> mapping of the active profile in the file on disk.\<close>

definition file_config :: "state \<Rightarrow> cfg option" where
  "file_config s =
     (case s of (L, w) \<Rightarrow>
       (case files w (absolute w (config_file_path (meta_data L))) of
          None \<Rightarrow> None
        | Some d \<Rightarrow> map_option config (map_of (configs d) (cfg_inv_key L))))"

text \<open>
  The configured data and the active profile's \<^verbatim>\<open>config\<close> in the round-trip document
  are the same dictionary, and the file on disk holds the same mapping.
\<close>

definition consistent :: "state \<Rightarrow> bool" where
  "consistent s =
     (case s of (L, w) \<Rightarrow>
        rt_config L = Some (configured_data L) \<and>
        map_option map_of (file_config s) = Some (map_of (configured_data L)))"

text \<open>Profile names in a file are the keys of a mapping: no name occurs twice.\<close>

definition unique_profile_names :: "world \<Rightarrow> bool" where
  "unique_profile_names w = (\<forall>d \<in> ran (files w). distinct (map fst (configs d)))"

text \<open>A configurable key that \<^verbatim>\<open>get\<close> reads from the configured data: neither a
  meta-data key nor the name of an attribute of the loader.\<close>

definition plain_key :: "ConfigLoader \<Rightarrow> string \<Rightarrow> bool" where
  "plain_key L name =
     (name \<in> set (configurable_keys L) \<and> name \<notin> set meta_keys \<and>
      name \<notin> set loader_attributes)"

text \<open>The argument of a mutator after \<^verbatim>\<open>_prepare_modify\<close> has decoded it.\<close>

definition decoded :: "world \<Rightarrow> val \<Rightarrow> bool \<Rightarrow> val option" where
  "decoded w v is_json =
     (if is_json then (case v of VStr json_str \<Rightarrow> json_loads w json_str | _ \<Rightarrow> None)
      else Some v)"

section \<open>An example installation\<close>

definition ex_keys :: "string list" where
  "ex_keys = [''log_directory'', ''environment_sources'', ''task_schema_sources'',
     ''telemetry'']"

definition ex_validate :: "cfg \<Rightarrow> ValidatedData" where
  "ex_validate d =
     (if list_all (\<lambda>kv. fst kv \<in> set ex_keys) d \<and>
         (case map_of d ''log_directory'' of
            None \<Rightarrow> True | Some (VStr s) \<Rightarrow> True | Some v \<Rightarrow> False)
      then \<lparr>is_valid = True, get_failures_string = []\<rparr>
      else \<lparr>is_valid = False, get_failures_string = ''invalid configuration''\<rparr>)"

definition ex_schema :: "cfg Schema" where
  "ex_schema =
     \<lparr>rules = [\<lparr>path = [], callable_name = ''allowed_keys'', callable_args = ex_keys\<rparr>],
      validate = ex_validate\<rparr>"

definition ex_file_schema :: "ConfigDocument Schema" where
  "ex_file_schema =
     \<lparr>rules = [], validate = (\<lambda>d. \<lparr>is_valid = True, get_failures_string = []\<rparr>)\<rparr>"

definition ex_json_loads :: "string \<Rightarrow> val option" where
  "ex_json_loads t =
     (if t = ''null'' then Some VNone
      else if t = ''[]'' then Some (VList [])
      else if t = ''[1, 2]'' then Some (VList [VInt 1, VInt 2])
      else if t = ''true'' then Some (VBool True)
      else None)"

definition ex_parent :: "fspath \<Rightarrow> fspath" where
  "ex_parent p =
     (let q = rev (drop 1 (dropWhile (\<lambda>c. c \<noteq> CHR ''/'') (rev p)))
      in if q = [] then ''/'' else q)"

text \<open>A fresh machine: a home directory, no configuration directory, no variable set.\<close>

definition ex_world0 :: world where
  "ex_world0 =
     \<lparr>dirs = {''/'', ''/home'', ''/home/u''},
      files = Map.empty,
      write_error = None,
      environ = Map.empty,
      warned = [],
      json_loads = ex_json_loads,
      expanduser = (\<lambda>p. if take 1 p = ''~'' then ''/home/u'' @ drop 1 p else p),
      absolute = (\<lambda>p. if take 1 p = ''/'' then p else ''/cwd/'' @ p),
      parent = ex_parent,
      joinpath = (\<lambda>p n. p @ ''/'' @ n),
      file_text = (\<lambda>d. ''machine: ...''),
      gethostname = ''host'',
      RUN_TIME_INFO = [''is_frozen'' \<mapsto> VBool False, ''is_venv'' \<mapsto> VBool True],
      config_schema_yaml = ex_schema,
      config_file_schema_yaml = ex_file_schema\<rparr>"

text \<open>The same machine after the first load, and the loader that load gives.\<close>

definition ex_world :: world where
  "ex_world =
     ex_world0\<lparr>dirs := insert ''/home/u/.hpcflow'' (dirs ex_world0),
               files := [''/home/u/.hpcflow/config.yml'' \<mapsto> DEFAULT_CONFIG ex_world0]\<rparr>"

definition ex_loader :: ConfigLoader where
  "ex_loader =
     \<lparr>configurable_keys = ex_keys,
      cfg_file_dat_rt = DEFAULT_CONFIG ex_world0,
      meta_data =
        \<lparr>config_dir = ''/home/u/.hpcflow'',
         config_file_path = ''/home/u/.hpcflow/config.yml'',
         config_file_contents = ''machine: ...'',
         config_invocation_key = ''default'',
         config_schemas = [ex_schema]\<rparr>,
      configured_data =
        [(''log_directory'', VStr ''logs''),
         (''environment_sources'', VList []),
         (''task_schema_sources'', VList [])]\<rparr>"

text \<open>The same machine with a disk that refuses every write.\<close>

definition ex_world_ro :: world where
  "ex_world_ro = ex_world\<lparr>write_error := Some (OSError ''read-only file system'')\<rparr>"


text \<open>The machine after the first load, with every profile removed from the file.\<close>

definition ex_world_empty :: world where
  "ex_world_empty =
     ex_world\<lparr>files := [''/home/u/.hpcflow/config.yml'' \<mapsto>
       (DEFAULT_CONFIG ex_world0)\<lparr>configs := []\<rparr>]\<rparr>"

text \<open>The same installation with a mapping stored under \<^verbatim>\<open>telemetry\<close>.\<close>

definition ex_config_tele :: cfg where
  "ex_config_tele =
     [(''log_directory'', VStr ''logs''),
      (''environment_sources'', VList []),
      (''task_schema_sources'', VList []),
      (''telemetry'', VDict [(''enabled'', VBool True)])]"

definition ex_doc_tele :: ConfigDocument where
  "ex_doc_tele =
     \<lparr>machine = VStr ''host'',
      defaults = VDict [],
      configs =
        [(''default'',
          \<lparr>invocation = \<lparr>environment_setup = VNone, match = []\<rparr>,
           config = ex_config_tele\<rparr>)]\<rparr>"

definition ex_loader_tele :: ConfigLoader where
  "ex_loader_tele = ex_loader\<lparr>cfg_file_dat_rt := ex_doc_tele, configured_data := ex_config_tele\<rparr>"

definition ex_world_tele :: world where
  "ex_world_tele = ex_world\<lparr>files := [''/home/u/.hpcflow/config.yml'' \<mapsto> ex_doc_tele]\<rparr>"

section \<open>Basic facts\<close>

lemmas ex_defs = ex_loader_def ex_keys_def ex_world_def ex_world0_def ex_json_loads_def
  ex_schema_def ex_validate_def ex_world_ro_def ex_loader_tele_def ex_world_tele_def
  ex_config_tele_def ex_doc_tele_def DEFAULT_CONFIG_def

lemmas attr_defs = loader_attributes_def instance_attributes_def class_attributes_def
  object_attributes_def meta_keys_def

lemma map_of_dict_setitem: "map_of (dict_setitem k v d) = (map_of d)(k \<mapsto> v)"
  by (induction d) (auto simp: fun_eq_iff)

lemma map_of_dict_delitem: "map_of (dict_delitem k d) = (map_of d)(k := None)"
  by (induction d) (auto simp: fun_eq_iff)

lemma map_of_dict_modify:
  "map_of (dict_modify k f d) k' = (if k' = k then map_option f (map_of d k) else map_of d k')"
  by (induction d) auto




lemma py_eq_list_length: "py_eq_list xs ys \<Longrightarrow> length xs = length ys"
  by (induction xs arbitrary: ys) (auto split: list.splits)

lemma get_plain: "plain_key L name \<Longrightarrow> get L name = Inr (dict_get (configured_data L) name)"
  by (simp add: plain_key_def get_def dunder_getattr_def)

lemma prepare_modify_ok:
  "name \<in> set (configurable_keys L) \<Longrightarrow> decoded w v is_json = Some new \<Longrightarrow>
   get L name = Inr cur \<Longrightarrow> prepare_modify (L, w) name v is_json = Inr (cur, new)"
  by (auto simp: prepare_modify_def decoded_def split: val.splits option.splits if_splits)

section \<open>The validate, apply and persist protocol\<close>

lemma rt_config_modified:
  "meta_data L' = meta_data L \<Longrightarrow> cfg_file_dat_rt L' = rt_modify f L \<Longrightarrow>
   rt_config L' = map_option f (rt_config L)"
  by (simp add: rt_config_def rt_modify_def cfg_inv_key_def map_of_dict_modify
      option.map_comp comp_def)


lemma file_config_loader:
  "meta_data L' = meta_data L \<Longrightarrow> file_config (L', w) = file_config (L, w)"
  by (simp add: file_config_def cfg_inv_key_def split: option.splits)

text \<open>The four outcomes of \<^verbatim>\<open>_modify_if_valid\<close>: the name is not set, the candidate is
  rejected, the file is written, writing fails.\<close>

lemma modify_if_valid_absent:
  "map_of (configured_data L) name = None \<Longrightarrow>
   modify_if_valid (L, w) name new_value is_unset = (Inl (KeyError (VStr name)), L, w)"
  by (simp add: modify_if_valid_def)

lemma modify_if_valid_rejected:
  assumes "map_of (configured_data L) name = Some old"
    and "validate_configured_data L
           (if is_unset then dict_delitem name (configured_data L)
            else dict_setitem name new_value (configured_data L)) = Inl verr"
  shows "modify_if_valid (L, w) name new_value is_unset =
           (Inl (ConfigChangeValidationError name verr), L, w)"
  using assms by (simp add: modify_if_valid_def)

lemma modify_if_valid_written:
  assumes "map_of (configured_data L) name = Some old"
    and "validate_configured_data L
           (if is_unset then dict_delitem name (configured_data L)
            else dict_setitem name new_value (configured_data L)) = Inr ()"
    and "rt_config L = Some (configured_data L)"
    and "write_error w = None"
    and "change = (if is_unset then dict_delitem name else dict_setitem name new_value)"
    and "L1 = L\<lparr>cfg_file_dat_rt := rt_modify change L,
                 configured_data := change (configured_data L)\<rparr>"
  shows "modify_if_valid (L, w) name new_value is_unset =
           (Inr (if is_unset then VBool True else new_value), L1,
            w\<lparr>files := (files w)(absolute w (config_file_path (meta_data L)) \<mapsto>
                 cfg_file_dat_rt L1)\<rparr>)"
  using assms by (simp add: modify_if_valid_def update_config_file_def Let_def)

lemma modify_if_valid_write_failed:
  assumes "map_of (configured_data L) name = Some old"
    and "validate_configured_data L
           (if is_unset then dict_delitem name (configured_data L)
            else dict_setitem name new_value (configured_data L)) = Inr ()"
    and "rt_config L = Some (configured_data L)"
    and "write_error w = Some err"
    and "change = (if is_unset then dict_delitem name else dict_setitem name new_value)"
    and "L1 = L\<lparr>cfg_file_dat_rt := rt_modify change L,
                 configured_data := change (configured_data L)\<rparr>"
  shows "modify_if_valid (L, w) name new_value is_unset =
           (Inl (ConfigChangeFileUpdateError name err),
            L1\<lparr>cfg_file_dat_rt := rt_modify (dict_setitem name old) L1,
                configured_data := dict_setitem name old (configured_data L1)\<rparr>, w)"
  using assms by (simp add: modify_if_valid_def update_config_file_def Let_def)


lemma consistent_warned [simp]: "consistent (L, w\<lparr>warned := ws\<rparr>) = consistent (L, w)"
  by (simp add: consistent_def file_config_def)

lemma prepare_modify_write_error [simp]:
  "prepare_modify (L, w\<lparr>write_error := we\<rparr>) name v is_json = prepare_modify (L, w) name v is_json"
  by (cases is_json; cases v) (simp_all add: prepare_modify_def)

lemma modify_if_valid_consistent:
  assumes "consistent (L, w)" and "modify_if_valid (L, w) name v u = (r, L', w')"
  shows "consistent (L', w') \<and> meta_data L' = meta_data L \<and>
         configurable_keys L' = configurable_keys L"
proof (cases "map_of (configured_data L) name")
  case None
  with assms show ?thesis by (simp add: modify_if_valid_absent)
next
  case (Some old)
  let ?change = "if u then dict_delitem name else dict_setitem name v"
  let ?L1 = "L\<lparr>cfg_file_dat_rt := rt_modify ?change L,
               configured_data := ?change (configured_data L)\<rparr>"
  from assms(1) have rt: "rt_config L = Some (configured_data L)"
    and fc: "map_option map_of (file_config (L, w)) = Some (map_of (configured_data L))"
    by (simp_all add: consistent_def)
  have rt1: "rt_config ?L1 = Some (configured_data ?L1)"
    by (simp add: rt_config_modified [where L = L and f = ?change] rt)
  show ?thesis
  proof (cases "validate_configured_data L
           (if u then dict_delitem name (configured_data L)
            else dict_setitem name v (configured_data L))")
    case (Inl verr)
    with assms Some show ?thesis by (simp add: modify_if_valid_rejected)
  next
    case (Inr x)
    then have ok: "validate_configured_data L
           (if u then dict_delitem name (configured_data L)
            else dict_setitem name v (configured_data L)) = Inr ()" by simp
    show ?thesis
    proof (cases "write_error w")
      case None
      have "modify_if_valid (L, w) name v u =
           (Inr (if u then VBool True else v), ?L1,
            w\<lparr>files := (files w)(absolute w (config_file_path (meta_data L)) \<mapsto>
                 cfg_file_dat_rt ?L1)\<rparr>)"
        by (rule modify_if_valid_written [OF Some ok rt None]) simp_all
      with assms(2) have L': "L' = ?L1"
        and w': "w' = w\<lparr>files := (files w)(absolute w (config_file_path (meta_data L)) \<mapsto>
                 cfg_file_dat_rt ?L1)\<rparr>" by (metis Pair_inject)+
      have "file_config (?L1, w') = rt_config ?L1"
        by (simp add: w' file_config_def rt_config_def cfg_inv_key_def)
      with rt1 show ?thesis by (simp add: L' consistent_def)
    next
      case (Some err)
      let ?L2 = "?L1\<lparr>cfg_file_dat_rt := rt_modify (dict_setitem name old) ?L1,
                  configured_data := dict_setitem name old (configured_data ?L1)\<rparr>"
      have "modify_if_valid (L, w) name v u = (Inl (ConfigChangeFileUpdateError name err), ?L2, w)"
        by (rule modify_if_valid_write_failed [OF \<open>map_of (configured_data L) name = Some old\<close> ok rt Some])
          simp_all
      with assms(2) have L': "L' = ?L2" and w': "w' = w" by (metis Pair_inject)+
      have rt2: "rt_config ?L2 = Some (configured_data ?L2)"
        by (simp add: rt_config_modified [where L = ?L1 and f = "dict_setitem name old"] rt1)
      have m: "map_of (configured_data ?L2) = map_of (configured_data L)"
        using \<open>map_of (configured_data L) name = Some old\<close>
        by (auto simp: map_of_dict_setitem map_of_dict_delitem fun_eq_iff)
      have "file_config (?L2, w) = file_config (L, w)"
        by (rule file_config_loader) simp
      with fc m rt2 show ?thesis by (simp add: L' w' consistent_def)
    qed
  qed
qed




lemma set_value_from_shape:
  "(\<forall>we. set_value_from (L, w\<lparr>write_error := we\<rparr>) name old new =
          modify_if_valid (L, w\<lparr>write_error := we\<rparr>) name new False)
   \<or> (\<exists>ws. \<forall>we. set_value_from (L, w\<lparr>write_error := we\<rparr>) name old new =
          (Inr VNone, L, w\<lparr>write_error := we, warned := ws\<rparr>))"
proof (cases "py_eq old new")
  case True
  then have "\<forall>we. set_value_from (L, w\<lparr>write_error := we\<rparr>) name old new =
          (Inr VNone, L, w\<lparr>write_error := we, warned := warned w @ [AlreadySet name new]\<rparr>)"
    by (simp add: set_value_from_def)
  then show ?thesis by blast
next
  case False
  then show ?thesis by (simp add: set_value_from_def)
qed

lemma mutate_shape:
  "(\<exists>v. \<forall>we. mutate (L, w\<lparr>write_error := we\<rparr>) name m =
          modify_if_valid (L, w\<lparr>write_error := we\<rparr>) name v (m = UnsetValue))
   \<or> (\<exists>r ws. \<forall>we. mutate (L, w\<lparr>write_error := we\<rparr>) name m =
          (r, L, w\<lparr>write_error := we, warned := ws\<rparr>))"
proof -
  have stop: "?thesis"
    if "\<forall>we. mutate (L, w\<lparr>write_error := we\<rparr>) name m = (r, L, w\<lparr>write_error := we\<rparr>)" for r
  proof -
    from that have "\<forall>we. mutate (L, w\<lparr>write_error := we\<rparr>) name m =
        (r, L, w\<lparr>write_error := we, warned := warned w\<rparr>)" by simp
    then show ?thesis by blast
  qed
  have via_set: "?thesis"
    if "m \<noteq> UnsetValue"
      and "\<forall>we. mutate (L, w\<lparr>write_error := we\<rparr>) name m =
             set_value_from (L, w\<lparr>write_error := we\<rparr>) name old new" for old new
    using set_value_from_shape [of L w name old new] that by auto
  show ?thesis
  proof (cases m)
    case (SetValue v is_json)
    show ?thesis
    proof (cases "prepare_modify (L, w) name v is_json")
      case (Inl err)
      with SetValue show ?thesis by (intro stop [of "Inl err"]) (simp add: set_value_def)
    next
      case (Inr on)
      obtain old new where on: "on = (old, new)" by (cases on)
      with Inr SetValue show ?thesis
        by (intro via_set [of old new]) (simp_all add: set_value_def)
    qed
  next
    case UnsetValue
    show ?thesis
    proof (cases "prepare_modify (L, w) name VNone False")
      case (Inl err)
      with UnsetValue show ?thesis by (intro stop [of "Inl err"]) (simp add: unset_value_def)
    next
      case (Inr on)
      show ?thesis
      proof (cases "map_of (configured_data L) name = None")
        case True
        with Inr UnsetValue
        have "\<forall>we. mutate (L, w\<lparr>write_error := we\<rparr>) name m =
            (Inr VNone, L, w\<lparr>write_error := we, warned := warned w @ [AlreadyUnset name]\<rparr>)"
          by (simp add: unset_value_def unset_value_from_def)
        then show ?thesis by blast
      next
        case False
        with Inr UnsetValue
        have "\<forall>we. mutate (L, w\<lparr>write_error := we\<rparr>) name m =
            modify_if_valid (L, w\<lparr>write_error := we\<rparr>) name VNone (m = UnsetValue)"
          by (auto simp: unset_value_def unset_value_from_def)
        then show ?thesis by blast
      qed
    qed
  next
    case (AppendValue v is_json)
    show ?thesis
    proof (cases "prepare_modify (L, w) name v is_json")
      case (Inl err)
      with AppendValue show ?thesis by (intro stop [of "Inl err"]) (simp add: append_value_def)
    next
      case (Inr on)
      obtain old new where on: "on = (old, new)" by (cases on)
      show ?thesis
      proof (cases "list_append old new")
        case (Inl err)
        with Inr on AppendValue show ?thesis
          by (intro stop [of "Inl (ConfigChangeTypeInvalidError name (py_type old))"])
            (simp add: append_value_def)
      next
        case (Inr new')
        with \<open>prepare_modify (L, w) name v is_json = Inr on\<close> on AppendValue show ?thesis
          by (intro via_set [of old new']) (simp_all add: append_value_def)
      qed
    qed
  next
    case (PrependValue v is_json)
    show ?thesis
    proof (cases "prepare_modify (L, w) name v is_json")
      case (Inl err)
      with PrependValue show ?thesis by (intro stop [of "Inl err"]) (simp add: prepend_value_def)
    next
      case (Inr on)
      obtain old new where on: "on = (old, new)" by (cases on)
      show ?thesis
      proof (cases "list_prepend new old")
        case (Inl err)
        with Inr on PrependValue show ?thesis
          by (intro stop [of "Inl (ConfigChangeTypeInvalidError name (py_type old))"])
            (simp add: prepend_value_def)
      next
        case (Inr new')
        with \<open>prepare_modify (L, w) name v is_json = Inr on\<close> on PrependValue show ?thesis
          by (intro via_set [of old new']) (simp_all add: prepend_value_def)
      qed
    qed
  next
    case (PopValue index)
    show ?thesis
    proof (cases "prepare_modify (L, w) name VNone False")
      case (Inl err)
      with PopValue show ?thesis by (intro stop [of "Inl err"]) (simp add: pop_value_def)
    next
      case (Inr on)
      obtain old u where on: "on = (old, u)" by (cases on)
      show ?thesis
      proof (cases "py_pop old index")
        case (Inl err)
        with Inr on PopValue show ?thesis
          by (intro stop [of "fst (pop_value (L, w) name index)"])
            (simp add: pop_value_def split: error.splits)
      next
        case (Inr new')
        with \<open>prepare_modify (L, w) name VNone False = Inr on\<close> on PopValue show ?thesis
          by (intro via_set [of old new']) (simp_all add: pop_value_def)
      qed
    qed
  qed
qed


lemma modify_if_valid_error_keeps_world:
  "modify_if_valid (L, w) name v u = (Inl e, L', w') \<Longrightarrow> w' = w"
  by (auto simp: modify_if_valid_def update_config_file_def Let_def
      split: option.splits sum.splits if_splits)



lemma modify_if_valid_set_ok:
  assumes "consistent (L, w)" and "plain_key L name"
    and "map_of (configured_data L) name = Some old"
    and "validate_configured_data L (dict_setitem name new (configured_data L)) = Inr ()"
    and "write_error w = None"
    and "modify_if_valid (L, w) name new False = (r, L', w')"
  shows "r = Inr new \<and> get L' name = Inr new \<and>
         configured_data L' = dict_setitem name new (configured_data L) \<and>
         files w' (absolute w (config_file_path (meta_data L))) = Some (cfg_file_dat_rt L') \<and>
         rt_config L' = Some (configured_data L')"
proof -
  let ?L1 = "L\<lparr>cfg_file_dat_rt := rt_modify (dict_setitem name new) L,
               configured_data := dict_setitem name new (configured_data L)\<rparr>"
  from assms(1) have rt: "rt_config L = Some (configured_data L)" by (simp add: consistent_def)
  have "modify_if_valid (L, w) name new False =
           (Inr new, ?L1,
            w\<lparr>files := (files w)(absolute w (config_file_path (meta_data L)) \<mapsto>
                 cfg_file_dat_rt ?L1)\<rparr>)"
    using modify_if_valid_written [OF assms(3) _ rt assms(5), where is_unset = False
        and new_value = new] assms(4) by simp
  with assms(6) have r: "r = Inr new" and L': "L' = ?L1"
    and w': "w' = w\<lparr>files := (files w)(absolute w (config_file_path (meta_data L)) \<mapsto>
                 cfg_file_dat_rt ?L1)\<rparr>" by (metis Pair_inject)+
  from assms(2) have "plain_key ?L1 name" by (simp add: plain_key_def)
  then have "get ?L1 name = Inr new"
    by (simp add: get_plain dict_get_def map_of_dict_setitem)
  moreover have "rt_config ?L1 = Some (configured_data ?L1)"
    by (simp add: rt_config_modified [where L = L and f = "dict_setitem name new"] rt)
  ultimately show ?thesis by (simp add: r L' w')
qed




section \<open>Reading and the allow-list\<close>

text \<open>
  Claim C10. A configurable key that is absent from the configured data reads as
  \<^verbatim>\<open>None\<close>, and \<^verbatim>\<open>get\<close> is said to raise \<^verbatim>\<open>ConfigUnknownItemError\<close> exactly for the
  names that are neither meta-data keys nor configurable keys. The first half holds
  (\<open>get_absent_key\<close>). The second does not: \<^verbatim>\<open>get\<close> is \<^verbatim>\<open>getattr(self, name)\<close>, so the name
  of any attribute of the loader, here the method \<^verbatim>\<open>get_configurable\<close>, which is neither
  a meta-data key nor a configurable key, is answered with that attribute and no error.
\<close>

theorem get_accepts_attribute_names:
  "''get_configurable'' \<notin> set meta_keys \<and>
   ''get_configurable'' \<notin> set (configurable_keys ex_loader) \<and>
   get ex_loader ''get_configurable'' = Inr (VObject ''get_configurable'')"
  by (simp add: get_def ex_defs attr_defs)

lemma get_absent_key:
  "plain_key L name \<Longrightarrow> map_of (configured_data L) name = None \<Longrightarrow> get L name = Inr VNone"
  by (simp add: get_plain dict_get_def)

lemma get_unknown_iff:
  "name \<notin> set loader_attributes \<Longrightarrow>
   (get L name = Inl (ConfigUnknownItemError name)) =
     (name \<notin> set meta_keys \<and> name \<notin> set (configurable_keys L))"
  by (simp add: get_def dunder_getattr_def)

text \<open>
  Claim C4, as stated: a name outside the allow-list makes \<^verbatim>\<open>get\<close>, \<^verbatim>\<open>set_value\<close> and
  \<^verbatim>\<open>unset_value\<close> fail with the same error, \<^verbatim>\<open>ConfigUnknownItemError\<close>. It fails for
  \<^verbatim>\<open>set_value\<close>: \<^verbatim>\<open>_prepare_modify\<close> raises \<^verbatim>\<open>ConfigChangeInvalidError\<close>.
\<close>

theorem set_value_unknown_counterexample:
  "''nope'' \<notin> set (configurable_keys ex_loader) \<and>
   fst (set_value (ex_loader, ex_world) ''nope'' (VStr ''x'') False)
     \<noteq> Inl (ConfigUnknownItemError ''nope'')"
  by (simp add: set_value_def prepare_modify_def ex_loader_def ex_keys_def)

text \<open>
  Claim C4, amended: for a name outside the allow-list, \<^verbatim>\<open>set_value\<close> and
  \<^verbatim>\<open>unset_value\<close> fail with \<^verbatim>\<open>ConfigChangeInvalidError\<close> and leave the loader and the
  world as they were; \<^verbatim>\<open>get\<close>, which has no effect on either, fails with
  \<^verbatim>\<open>ConfigUnknownItemError\<close> when the name is also not a meta-data key and not the name
  of an attribute of the loader.
\<close>

theorem unknown_names_rejected:
  assumes "name \<notin> set (configurable_keys L)"
  shows "set_value (L, w) name v is_json = (Inl (ConfigChangeInvalidError name), L, w) \<and>
         unset_value (L, w) name = (Inl (ConfigChangeInvalidError name), L, w) \<and>
         (name \<notin> set meta_keys \<and> name \<notin> set loader_attributes \<longrightarrow>
            get L name = Inl (ConfigUnknownItemError name))"
  using assms
  by (simp add: set_value_def unset_value_def prepare_modify_def get_def dunder_getattr_def)

theorem unknown_names_rejected_witness:
  "set_value (ex_loader, ex_world) ''nope'' (VStr ''x'') False =
     (Inl (ConfigChangeInvalidError ''nope''), ex_loader, ex_world) \<and>
   unset_value (ex_loader, ex_world) ''nope'' =
     (Inl (ConfigChangeInvalidError ''nope''), ex_loader, ex_world) \<and>
   get ex_loader ''nope'' = Inl (ConfigUnknownItemError ''nope'')"
  using unknown_names_rejected [of "''nope''" ex_loader ex_world "VStr ''x''" False]
  by (simp add: ex_loader_def ex_keys_def attr_defs)

section \<open>Setting a value\<close>

text \<open>
  Claim C8. For a configurable key, \<^verbatim>\<open>set_value\<close> with a new value (decoded from JSON
  when \<^verbatim>\<open>is_json\<close>) that \<^verbatim>\<open>==\<close> the current value returns \<^verbatim>\<open>None\<close> after one warning:
  the loader (configured data and round-trip document) is the same, nothing is written
  to disk, and \<^verbatim>\<open>get\<close> answers as before.
\<close>

theorem set_value_same_is_noop:
  assumes "name \<in> set (configurable_keys L)"
    and "decoded w v is_json = Some new"
    and "get L name = Inr cur"
    and "py_eq cur new"
  shows "(case set_value (L, w) name v is_json of
            (r, L', w') \<Rightarrow>
              r = Inr VNone \<and> L' = L \<and>
              w' = w\<lparr>warned := warned w @ [AlreadySet name new]\<rparr> \<and>
              files w' = files w \<and> get L' name = Inr cur)"
  using assms by (simp add: set_value_def prepare_modify_ok set_value_from_def)

theorem set_value_same_is_noop_witness:
  "set_value (ex_loader, ex_world) ''environment_sources'' (VStr ''[]'') True =
     (Inr VNone, ex_loader,
      ex_world\<lparr>warned := warned ex_world @ [AlreadySet ''environment_sources'' (VList [])]\<rparr>)"
  using set_value_same_is_noop [of "''environment_sources''" ex_loader ex_world
      "VStr ''[]''" True "VList []" "VList []"]
  by (simp add: ex_defs decoded_def get_def dunder_getattr_def attr_defs dict_get_def
      split: prod.splits)

text \<open>
  Claim C3 holds for a key the configured data holds (\<open>set_value_present\<close> below) and is
  stated for the absent keys too. For those the code stops before it validates:
  \<^verbatim>\<open>old_value = dat_copy[name]\<close> in \<^verbatim>\<open>_modify_if_valid\<close> raises \<^verbatim>\<open>KeyError\<close>. Here
  \<^verbatim>\<open>telemetry\<close> is configurable and not set, the candidate mapping is valid, and
  nothing is applied or returned; and a key that has just been unset cannot be set again.
\<close>

theorem set_value_absent_key:
  "''telemetry'' \<in> set (configurable_keys ex_loader) \<and>
   map_of (configured_data ex_loader) ''telemetry'' = None \<and>
   validate_configured_data ex_loader
     (dict_setitem ''telemetry'' (VBool True) (configured_data ex_loader)) = Inr () \<and>
   set_value (ex_loader, ex_world) ''telemetry'' (VBool True) False =
     (Inl (KeyError (VStr ''telemetry'')), ex_loader, ex_world) \<and>
   fst (unset_value (ex_loader, ex_world) ''environment_sources'') = Inr (VBool True) \<and>
   fst (set_value (snd (unset_value (ex_loader, ex_world) ''environment_sources''))
          ''environment_sources'' (VList []) False) =
     Inl (KeyError (VStr ''environment_sources''))"
  by (simp add: set_value_def unset_value_def unset_value_from_def prepare_modify_def get_def
      dunder_getattr_def dict_get_def set_value_from_def modify_if_valid_def
      validate_configured_data_def rt_config_def cfg_inv_key_def rt_modify_def
      update_config_file_def Let_def attr_defs ex_defs)

text \<open>Setting a key the configured data holds: the candidate is validated, and when it
  is valid and the write succeeds, the new value is stored, written and returned.\<close>

lemma set_value_present:
  assumes "consistent (L, w)" and "plain_key L name"
    and "map_of (configured_data L) name = Some cur"
    and "decoded w v is_json = Some new"
    and "\<not> py_eq cur new"
  shows "(\<forall>verr. validate_configured_data L (dict_setitem name new (configured_data L)) = Inl verr
            \<longrightarrow> set_value (L, w) name v is_json =
                  (Inl (ConfigChangeValidationError name verr), L, w)) \<and>
         (validate_configured_data L (dict_setitem name new (configured_data L)) = Inr () \<and>
          write_error w = None \<longrightarrow>
            fst (set_value (L, w) name v is_json) = Inr new \<and>
            get (fst (snd (set_value (L, w) name v is_json))) name = Inr new \<and>
            files (snd (snd (set_value (L, w) name v is_json)))
                (absolute w (config_file_path (meta_data L))) =
              Some (cfg_file_dat_rt (fst (snd (set_value (L, w) name v is_json)))))"
proof -
  from assms(2) have k: "name \<in> set (configurable_keys L)" by (simp add: plain_key_def)
  from assms(2,3) have g: "get L name = Inr cur" by (simp add: get_plain dict_get_def)
  have sv: "set_value (L, w) name v is_json = modify_if_valid (L, w) name new False"
    using assms(5) by (simp add: set_value_def prepare_modify_ok [OF k assms(4) g] set_value_from_def)
  have "set_value (L, w) name v is_json = (Inl (ConfigChangeValidationError name verr), L, w)"
    if "validate_configured_data L (dict_setitem name new (configured_data L)) = Inl verr" for verr
    using modify_if_valid_rejected [OF assms(3), where is_unset = False and new_value = new] that
    by (simp add: sv)
  moreover have "fst (set_value (L, w) name v is_json) = Inr new \<and>
            get (fst (snd (set_value (L, w) name v is_json))) name = Inr new \<and>
            files (snd (snd (set_value (L, w) name v is_json)))
                (absolute w (config_file_path (meta_data L))) =
              Some (cfg_file_dat_rt (fst (snd (set_value (L, w) name v is_json))))"
    if "validate_configured_data L (dict_setitem name new (configured_data L)) = Inr ()"
      "write_error w = None"
    using modify_if_valid_set_ok [OF assms(1,2,3) that,
        of "fst (set_value (L, w) name v is_json)" "fst (snd (set_value (L, w) name v is_json))"
          "snd (snd (set_value (L, w) name v is_json))"]
    by (simp add: sv)
  ultimately show ?thesis by blast
qed

section \<open>Appending and prepending\<close>



section \<open>Popping\<close>

text \<open>
  Claim C6 asks for \<^verbatim>\<open>ConfigChangeTypeInvalidError\<close> whenever the current value is not a
  list, mappings included. \<^verbatim>\<open>pop_value\<close> recognises a non-list by the
  \<^verbatim>\<open>AttributeError\<close> of a missing \<^verbatim>\<open>pop\<close> method, and a dictionary has one: the call
  \<^verbatim>\<open>pop_value("telemetry", 0)\<close> on the mapping \<^verbatim>\<open>{enabled: true}\<close> lets the \<^verbatim>\<open>KeyError\<close>
  of \<^verbatim>\<open>dict.pop\<close> escape.
\<close>

theorem pop_value_on_mapping:
  "pop_value (ex_loader_tele, ex_world_tele) ''telemetry'' 0 =
     (Inl (KeyError (VInt 0)), ex_loader_tele, ex_world_tele)"
  by (simp add: pop_value_def prepare_modify_def get_def dunder_getattr_def dict_get_def
      py_pop_def ex_loader_tele_def ex_loader_def ex_keys_def ex_config_tele_def attr_defs)

text \<open>Popping from a list, and from a value with no \<^verbatim>\<open>pop\<close> method.\<close>

lemma py_eq_other_length: "length xs \<noteq> length ys \<Longrightarrow> \<not> py_eq (VList xs) (VList ys)"
  by (auto dest: py_eq_list_length)

lemma pop_value_list:
  assumes "name \<in> set (configurable_keys L)" and "get L name = Inr (VList xs)"
  shows "(index < - int (length xs) \<or> int (length xs) \<le> index \<longrightarrow>
            pop_value (L, w) name index =
              (Inl (ConfigChangePopIndexError name (length xs) index), L, w)) \<and>
         (0 \<le> index \<and> index < int (length xs) \<longrightarrow>
            pop_value (L, w) name index =
              modify_if_valid (L, w) name
                (VList (take (nat index) xs @ drop (Suc (nat index)) xs)) False) \<and>
         (- int (length xs) \<le> index \<and> index < 0 \<longrightarrow>
            pop_value (L, w) name index =
              modify_if_valid (L, w) name
                (VList (take (nat (int (length xs) + index)) xs @
                        drop (Suc (nat (int (length xs) + index))) xs)) False)"
proof -
  have pm: "prepare_modify (L, w) name VNone False = Inr (VList xs, VNone)"
    by (rule prepare_modify_ok [OF assms(1) _ assms(2)]) (simp add: decoded_def)
  have popped: "pop_value (L, w) name index =
      modify_if_valid (L, w) name (VList (take n xs @ drop (Suc n) xs)) False"
    if "py_pop (VList xs) index = Inr (VList (take n xs @ drop (Suc n) xs))" "n < length xs"
    for n
  proof -
    from that(2) have "length xs \<noteq> length (take n xs @ drop (Suc n) xs)" by simp
    then have "\<not> py_eq (VList xs) (VList (take n xs @ drop (Suc n) xs))"
      by (rule py_eq_other_length)
    with that(1) show ?thesis by (simp add: pop_value_def pm set_value_from_def)
  qed
  have out: "pop_value (L, w) name index =
      (Inl (ConfigChangePopIndexError name (length xs) index), L, w)"
    if "index < - int (length xs) \<or> int (length xs) \<le> index"
  proof -
    from that have "py_pop (VList xs) index = Inl IndexError"
      by (auto simp: py_pop_def Let_def)
    then show ?thesis by (simp add: pop_value_def pm py_len_def)
  qed
  have at_front: "pop_value (L, w) name index =
      modify_if_valid (L, w) name (VList (take (nat index) xs @ drop (Suc (nat index)) xs)) False"
    if "0 \<le> index \<and> index < int (length xs)"
  proof (rule popped)
    from that show "py_pop (VList xs) index =
        Inr (VList (take (nat index) xs @ drop (Suc (nat index)) xs))"
      by (simp add: py_pop_def Let_def)
    from that show "nat index < length xs" by linarith
  qed
  have at_back: "pop_value (L, w) name index =
      modify_if_valid (L, w) name
        (VList (take (nat (int (length xs) + index)) xs @
                drop (Suc (nat (int (length xs) + index))) xs)) False"
    if "- int (length xs) \<le> index \<and> index < 0"
  proof (rule popped)
    from that show "py_pop (VList xs) index =
        Inr (VList (take (nat (int (length xs) + index)) xs @
                drop (Suc (nat (int (length xs) + index))) xs))"
      by (simp add: py_pop_def Let_def)
    from that show "nat (int (length xs) + index) < length xs" by linarith
  qed
  from out at_front at_back show ?thesis by blast
qed

lemma pop_value_without_pop:
  assumes "name \<in> set (configurable_keys L)" and "get L name = Inr cur"
    and "\<forall>xs. cur \<noteq> VList xs" and "\<forall>d. cur \<noteq> VDict d"
  shows "pop_value (L, w) name index =
           (Inl (ConfigChangeTypeInvalidError name (py_type cur)), L, w)"
proof -
  have pm: "prepare_modify (L, w) name VNone False = Inr (cur, VNone)"
    by (rule prepare_modify_ok [OF assms(1) _ assms(2)]) (simp add: decoded_def)
  from assms(3,4) show ?thesis
    by (cases cur) (simp_all add: pop_value_def pm py_pop_def)
qed

section \<open>Write failures\<close>

lemma ex_consistent_ro: "consistent (ex_loader, ex_world_ro)"
  by (simp add: consistent_def rt_config_def file_config_def cfg_inv_key_def ex_defs)

lemma ex_unset_ro:
  "mutate (ex_loader, ex_world_ro) ''environment_sources'' UnsetValue =
     (Inl (ConfigChangeFileUpdateError ''environment_sources''
            (OSError ''read-only file system'')),
      ex_loader\<lparr>configured_data :=
          [(''log_directory'', VStr ''logs''), (''task_schema_sources'', VList []),
           (''environment_sources'', VList [])],
        cfg_file_dat_rt := (cfg_file_dat_rt ex_loader)\<lparr>configs :=
          [(''default'',
            \<lparr>invocation = \<lparr>environment_setup = VNone, match = []\<rparr>,
             config =
               [(''log_directory'', VStr ''logs''), (''task_schema_sources'', VList []),
                (''environment_sources'', VList [])]\<rparr>)]\<rparr>\<rparr>,
      ex_world_ro)"
  by (simp add: unset_value_def unset_value_from_def prepare_modify_def get_def
      dunder_getattr_def dict_get_def modify_if_valid_def validate_configured_data_def
      rt_config_def cfg_inv_key_def rt_modify_def update_config_file_def Let_def
      attr_defs ex_defs)




section \<open>Selecting the profile and loading\<close>

text \<open>
  Claim C2 asks for \<^verbatim>\<open>ConfigFileInvocationIncompatibleError\<close> whenever no profile
  matches, the empty sequence of profiles included. With no profile the loop body never
  runs, \<^verbatim>\<open>is_match\<close> is never bound, and the test \<^verbatim>\<open>if not is_match\<close> after the loop
  raises \<^verbatim>\<open>UnboundLocalError\<close>: so for the selection on its own, and for \<^verbatim>\<open>__init__\<close>
  on a file whose \<^verbatim>\<open>configs\<close> mapping is empty.
\<close>

theorem select_invocation_no_profiles:
  "select_invocation rti [] = Inl (UnboundLocalError ''is_match'') \<and>
   init ex_world_empty None VNone = (Inl (UnboundLocalError ''is_match''), ex_world_empty)"
proof -
  have "get_main_config_file ex_world_empty ''/home/u/.hpcflow'' =
      (Inr ((DEFAULT_CONFIG ex_world0)\<lparr>configs := []\<rparr>,
            (DEFAULT_CONFIG ex_world0)\<lparr>configs := []\<rparr>,
            ''/home/u/.hpcflow/config.yml'', ''machine: ...''), ex_world_empty)"
    by (simp add: get_main_config_file_def is_file_def is_dir_def Let_def ex_world_empty_def
        ex_world_def ex_world0_def)
  moreover have "resolve_config_dir ex_world_empty VNone = (Inr ''/home/u/.hpcflow'', ex_world_empty)"
    by (simp add: resolve_config_dir_def CONFIG_DIR_ENV_VAR_def CONFIG_DIR_DEFAULT_def
        is_dir_def ex_world_empty_def ex_world_def ex_world0_def)
  moreover have "is_valid (validate (config_file_schema_yaml ex_world_empty) d)" for d
    by (simp add: ex_world_empty_def ex_world_def ex_world0_def ex_file_schema_def)
  ultimately show ?thesis
    by (simp add: init_def select_invocation_def Let_def)
qed

text \<open>With at least one profile: the first profile whose inner loop ends with a match is
  selected, a profile with no criteria matches, and with at least one profile and no
  match the incompatibility error is raised. A criterion that names an attribute the
  run-time information does not have ends the selection with \<^verbatim>\<open>AttributeError\<close>.\<close>

lemma match_items_empty: "match_items rti [] = Inr True"
  by simp

lemma match_items_missing_attribute:
  "rti match_k = None \<Longrightarrow>
   match_items rti ((match_k, match_v) # rest) = Inl (AttributeError match_k)"
  by simp

lemma match_items_eq:
  "\<forall>kv \<in> set m. rti (fst kv) \<noteq> None \<Longrightarrow>
   match_items rti m = Inr (\<forall>kv \<in> set m. \<exists>a. rti (fst kv) = Some a \<and> py_eq a (snd kv))"
  by (induction m) (auto split: option.splits)

lemma select_loop_first:
  assumes "\<forall>kd \<in> set pre. match_items rti (match (invocation (snd kd))) = Inr False"
    and "match_items rti (match (invocation c_dat)) = Inr True"
  shows "select_loop rti (pre @ (c_name, c_dat) # post) im = Inr (Some (c_name, c_dat), Some True)"
  using assms(1) by (induction pre arbitrary: im) (auto simp: assms(2))

lemma select_invocation_first:
  assumes "\<forall>kd \<in> set pre. match_items rti (match (invocation (snd kd))) = Inr False"
    and "match_items rti (match (invocation c_dat)) = Inr True"
  shows "select_invocation rti (pre @ (c_name, c_dat) # post) = Inr (c_name, c_dat)"
  by (simp add: select_invocation_def select_loop_first [OF assms])

lemma select_loop_none:
  "\<forall>kd \<in> set cfgs. match_items rti (match (invocation (snd kd))) = Inr False \<Longrightarrow>
   select_loop rti cfgs im = Inr (None, if cfgs = [] then im else Some False)"
  by (induction cfgs arbitrary: im) auto

lemma select_invocation_none:
  assumes "cfgs \<noteq> []"
    and "\<forall>kd \<in> set cfgs. match_items rti (match (invocation (snd kd))) = Inr False"
  shows "select_invocation rti cfgs = Inl ConfigFileInvocationIncompatibleError"
  using assms(1) by (simp add: select_invocation_def select_loop_none [OF assms(2)])

subsection \<open>Loading\<close>

lemma select_loop_member:
  "select_loop rti cfgs im = Inr (Some kd, b) \<Longrightarrow> kd \<in> set cfgs"
  by (induction rti cfgs im rule: select_loop.induct) (auto split: sum.splits if_splits)

lemma select_invocation_member: "select_invocation rti cfgs = Inr kd \<Longrightarrow> kd \<in> set cfgs"
  by (auto simp: select_invocation_def split: sum.splits option.splits if_splits
      dest: select_loop_member)

lemma resolve_config_dir_world:
  "resolve_config_dir w a = (r, w') \<Longrightarrow> \<exists>ds. w' = w\<lparr>dirs := ds\<rparr>"
proof -
  assume a: "resolve_config_dir w a = (r, w')"
  have "w' = w\<lparr>dirs := dirs w\<rparr> \<or> (\<exists>p. w' = w\<lparr>dirs := insert p (dirs w)\<rparr>)"
    using a
    by (auto simp: resolve_config_dir_def mkdir_def split: sum.splits if_splits option.splits)
  then show ?thesis by blast
qed

lemma get_main_config_file_result:
  assumes "get_main_config_file w cfg_dir = (Inr (d, d_rt, p, t), w')"
  shows "d_rt = d \<and> files w' (absolute w' p) = Some d \<and>
         (d \<in> ran (files w) \<or> d = DEFAULT_CONFIG w)"
  using assms
  by (auto simp: get_main_config_file_def Let_def is_file_def ran_def
      split: if_splits option.splits sum.splits)

lemma init_consistent:
  assumes "init w config_schema dir_arg = (Inr L, w')" and "unique_profile_names w"
  shows "consistent (L, w')"
proof -
  from assms(1) obtain cfg_dir w1 d d_rt p t kd where
    r: "resolve_config_dir w dir_arg = (Inr cfg_dir, w1)"
    and g: "get_main_config_file w1 cfg_dir = (Inr (d, d_rt, p, t), w')"
    and s: "select_invocation (RUN_TIME_INFO w') (configs d) = Inr kd"
    and rt: "cfg_file_dat_rt L = d_rt"
    and cd: "configured_data L = config (snd kd)"
    and key: "config_invocation_key (meta_data L) = fst kd"
    and path: "config_file_path (meta_data L) = p"
    by (auto simp: init_def Let_def split: prod.splits sum.splits if_splits)
  from resolve_config_dir_world [OF r] obtain ds where w1: "w1 = w\<lparr>dirs := ds\<rparr>" by blast
  from get_main_config_file_result [OF g]
  have d_rt: "d_rt = d" and fl: "files w' (absolute w' p) = Some d"
    and src: "d \<in> ran (files w1) \<or> d = DEFAULT_CONFIG w1" by simp_all
  from src assms(2) have dist: "distinct (map fst (configs d))"
    by (auto simp: w1 unique_profile_names_def DEFAULT_CONFIG_def)
  from select_invocation_member [OF s] have "(fst kd, snd kd) \<in> set (configs d)" by simp
  with dist have m: "map_of (configs d) (fst kd) = Some (snd kd)" by (rule map_of_is_SomeI)
  show ?thesis
    by (simp add: consistent_def rt_config_def file_config_def cfg_inv_key_def
        rt d_rt cd key path fl m)
qed

section \<open>Resolving the directory\<close>



lemma ex_resolve:
  "resolve_config_dir ex_world0 VNone =
     (Inr ''/home/u/.hpcflow'',
      ex_world0\<lparr>dirs := insert ''/home/u/.hpcflow'' (dirs ex_world0)\<rparr>)"
  by (simp add: resolve_config_dir_def CONFIG_DIR_ENV_VAR_def CONFIG_DIR_DEFAULT_def
      mkdir_def is_dir_def is_file_def ex_world0_def ex_parent_def)






section \<open>Consistency\<close>

lemma mutation_keeps_consistency:
  assumes "consistent (L, w)" and "mutate (L, w) name m = (r, L', w')"
  shows "consistent (L', w') \<and> (\<forall>e. r = Inl e \<longrightarrow> files w' = files w)"
proof -
  have w: "w\<lparr>write_error := write_error w\<rparr> = w" by simp
  from mutate_shape [of L w name m] show ?thesis
  proof
    assume "\<exists>v. \<forall>we. mutate (L, w\<lparr>write_error := we\<rparr>) name m =
          modify_if_valid (L, w\<lparr>write_error := we\<rparr>) name v (m = UnsetValue)"
    then obtain v where v: "\<And>we. mutate (L, w\<lparr>write_error := we\<rparr>) name m =
          modify_if_valid (L, w\<lparr>write_error := we\<rparr>) name v (m = UnsetValue)" by blast
    from v [of "write_error w"] assms(2)
    have mod: "modify_if_valid (L, w) name v (m = UnsetValue) = (r, L', w')" by simp
    from modify_if_valid_consistent [OF assms(1) mod] modify_if_valid_error_keeps_world mod
    show ?thesis by blast
  next
    assume "\<exists>r ws. \<forall>we. mutate (L, w\<lparr>write_error := we\<rparr>) name m =
          (r, L, w\<lparr>write_error := we, warned := ws\<rparr>)"
    then obtain r0 ws where s: "\<And>we. mutate (L, w\<lparr>write_error := we\<rparr>) name m =
          (r0, L, w\<lparr>write_error := we, warned := ws\<rparr>)" by blast
    from s [of "write_error w"] assms(2)
    have "L' = L" and "w' = w\<lparr>warned := ws\<rparr>" by simp_all
    with assms(1) show ?thesis by simp
  qed
qed

lemma ex_get_main:
  "get_main_config_file (ex_world0\<lparr>dirs := insert ''/home/u/.hpcflow'' (dirs ex_world0)\<rparr>)
     ''/home/u/.hpcflow'' =
   (Inr (DEFAULT_CONFIG ex_world0, DEFAULT_CONFIG ex_world0, ''/home/u/.hpcflow/config.yml'',
         ''machine: ...''), ex_world)"
  by (simp add: get_main_config_file_def is_file_def is_dir_def Let_def ex_world_def
      ex_world0_def DEFAULT_CONFIG_def)

lemma ex_select:
  "select_invocation (RUN_TIME_INFO ex_world) (configs (DEFAULT_CONFIG ex_world0)) =
     Inr (''default'', \<lparr>invocation = \<lparr>environment_setup = VNone, match = []\<rparr>,
           config =
             [(''log_directory'', VStr ''logs''),
              (''environment_sources'', VList []),
              (''task_schema_sources'', VList [])]\<rparr>)"
  by (simp add: select_invocation_def DEFAULT_CONFIG_def)

lemma ex_init: "init ex_world0 None VNone = (Inr ex_loader, ex_world)"
  by (simp add: init_def ex_resolve ex_get_main ex_select Let_def)
    (simp add: ex_world_def ex_world0_def ex_file_schema_def validate_configured_data_def
      cfg_keys_of_def ex_schema_def ex_validate_def ex_keys_def ex_loader_def DEFAULT_CONFIG_def)

lemma ex_set_out:
  "mutate (ex_loader, ex_world) ''log_directory'' (SetValue (VStr ''out'') False) =
     (Inr (VStr ''out''),
      ex_loader\<lparr>configured_data :=
          [(''log_directory'', VStr ''out''), (''environment_sources'', VList []),
           (''task_schema_sources'', VList [])],
        cfg_file_dat_rt := (cfg_file_dat_rt ex_loader)\<lparr>configs :=
          [(''default'',
            \<lparr>invocation = \<lparr>environment_setup = VNone, match = []\<rparr>,
             config =
               [(''log_directory'', VStr ''out''), (''environment_sources'', VList []),
                (''task_schema_sources'', VList [])]\<rparr>)]\<rparr>\<rparr>,
      ex_world\<lparr>files := [''/home/u/.hpcflow/config.yml'' \<mapsto>
        (cfg_file_dat_rt ex_loader)\<lparr>configs :=
          [(''default'',
            \<lparr>invocation = \<lparr>environment_setup = VNone, match = []\<rparr>,
             config =
               [(''log_directory'', VStr ''out''), (''environment_sources'', VList []),
                (''task_schema_sources'', VList [])]\<rparr>)]\<rparr>]\<rparr>)"
  by (simp add: set_value_def set_value_from_def prepare_modify_def get_def
      dunder_getattr_def dict_get_def modify_if_valid_def validate_configured_data_def
      rt_config_def cfg_inv_key_def rt_modify_def update_config_file_def Let_def
      attr_defs ex_defs)

text \<open>
  Claim C5. A successful \<^verbatim>\<open>__init__\<close> (on a disk whose documents have no profile name
  twice) gives a consistent store: the configured data is the \<^verbatim>\<open>config\<close> dictionary
  of the active profile in the round-trip document, and the file on disk holds the same
  mapping. Every mutator, whether it returns or raises, takes a consistent store to a
  consistent store; when it raises, the files on disk are the ones before the call, so
  the two in-memory copies agree with the content last written. (\<^verbatim>\<open>get\<close> and
  \<^verbatim>\<open>get_configurable\<close> only read the loader.)
\<close>

theorem consistency_is_invariant:
  "(unique_profile_names w0 \<and> init w0 config_schema dir_arg = (Inr L0, w1) \<longrightarrow>
      consistent (L0, w1)) \<and>
   (consistent (L, w) \<and> mutate (L, w) name m = (r, L', w') \<longrightarrow>
      consistent (L', w') \<and> (\<forall>e. r = Inl e \<longrightarrow> files w' = files w))"
  using init_consistent mutation_keeps_consistency by blast

theorem consistency_is_invariant_witness:
  "unique_profile_names ex_world0 \<and>
   init ex_world0 None VNone = (Inr ex_loader, ex_world) \<and>
   consistent (ex_loader, ex_world) \<and>
   fst (mutate (ex_loader, ex_world) ''log_directory'' (SetValue (VStr ''out'') False)) =
     Inr (VStr ''out'') \<and>
   consistent (snd (mutate (ex_loader, ex_world) ''log_directory''
     (SetValue (VStr ''out'') False))) \<and>
   consistent (ex_loader, ex_world_ro) \<and>
   fst (mutate (ex_loader, ex_world_ro) ''environment_sources'' UnsetValue) =
     Inl (ConfigChangeFileUpdateError ''environment_sources''
           (OSError ''read-only file system'')) \<and>
   consistent (snd (mutate (ex_loader, ex_world_ro) ''environment_sources'' UnsetValue)) \<and>
   files (snd (snd (mutate (ex_loader, ex_world_ro) ''environment_sources'' UnsetValue))) =
     files ex_world_ro"
proof -
  have u: "unique_profile_names ex_world0"
    by (simp add: unique_profile_names_def ex_world0_def)
  from consistency_is_invariant [of ex_world0 None VNone ex_loader ex_world] u ex_init
  have c: "consistent (ex_loader, ex_world)" by blast
  from consistency_is_invariant [of _ _ _ _ _ ex_loader ex_world] c ex_set_out
  have "consistent (snd (mutate (ex_loader, ex_world) ''log_directory''
     (SetValue (VStr ''out'') False)))"
    by (simp only: snd_conv)
  moreover
  have "fst (mutate (ex_loader, ex_world) ''log_directory'' (SetValue (VStr ''out'') False)) =
     Inr (VStr ''out'')"
    by (simp only: ex_set_out fst_conv)
  moreover
  let ?o = "mutate (ex_loader, ex_world_ro) ''environment_sources'' UnsetValue"
  have failed: "fst ?o =
     Inl (ConfigChangeFileUpdateError ''environment_sources''
           (OSError ''read-only file system''))"
    by (simp only: ex_unset_ro fst_conv)
  have "?o = (fst ?o, fst (snd ?o), snd (snd ?o))" by simp
  with consistency_is_invariant [of _ _ _ _ _ ex_loader ex_world_ro "''environment_sources''"
      UnsetValue "fst ?o" "fst (snd ?o)" "snd (snd ?o)"] ex_consistent_ro
  have "consistent (fst (snd ?o), snd (snd ?o)) \<and>
      (\<forall>e. fst ?o = Inl e \<longrightarrow> files (snd (snd ?o)) = files ex_world_ro)"
    by blast
  with failed have "consistent (snd ?o) \<and> files (snd (snd ?o)) = files ex_world_ro"
    by simp
  ultimately show ?thesis using u ex_init c ex_consistent_ro failed by blast
qed

end
